theory Spec2Isabelle
  imports Main
begin

section \<open>Values, errors and the names of the errno module\<close>

text \<open>
  Python \<open>bytes\<close> are lists of 8-bit characters, object references are heap indices.
\<close>

type_synonym bytes = "char list"
type_synonym ref = nat

datatype errno = ENOSYS | EPERM | ENOENT | ENOTDIR | EINVAL | EACCES | EIO

text \<open>
  Every exception the modelled code can raise. \<open>FuseOSError\<close> is the only one that carries
  an error code to the transport; the others are Python's own exceptions.
\<close>

datatype error =
    FuseOSError errno
  | AttributeError string
  | KeyError string
  | NameError string
  | TypeError string
  | ValueError string

text \<open>
  Attribute lookup in the standard \<open>errno\<close> module. The module defines \<open>ENOSYS\<close>,
  \<open>EPERM\<close>, \<open>ENOENT\<close>, \<open>ENOTDIR\<close>, \<open>EINVAL\<close>, \<open>EACCES\<close> and \<open>EIO\<close> (among others
  the code never names); it has no attribute \<open>ENOPERM\<close>, so \<open>errno.ENOPERM\<close> raises
  \<open>AttributeError\<close>.
\<close>

definition errno_getattr :: "string \<Rightarrow> error + errno" where
  "errno_getattr a =
     (if a = ''ENOSYS'' then Inr ENOSYS
      else if a = ''EPERM'' then Inr EPERM
      else if a = ''ENOENT'' then Inr ENOENT
      else if a = ''ENOTDIR'' then Inr ENOTDIR
      else if a = ''EINVAL'' then Inr EINVAL
      else if a = ''EACCES'' then Inr EACCES
      else if a = ''EIO'' then Inr EIO
      else Inl (AttributeError a))"

text \<open>
  The exception that leaves \<open>raise fuse.FuseOSError(errno.a)\<close>: the argument is evaluated
  first, so a missing attribute raises before any \<open>FuseOSError\<close> is built.
\<close>

definition raise_FuseOSError :: "string \<Rightarrow> error" where
  "raise_FuseOSError a = (case errno_getattr a of Inl e \<Rightarrow> e | Inr c \<Rightarrow> FuseOSError c)"

text \<open>The error names of the specification.\<close>

abbreviation NotSupported :: error where "NotSupported \<equiv> FuseOSError ENOSYS"
abbreviation PermissionDenied :: error where "PermissionDenied \<equiv> FuseOSError EPERM"
abbreviation NotFound :: error where "NotFound \<equiv> FuseOSError ENOENT"

section \<open>core.py: FileHandle\<close>

text \<open>
  \<open>FileHandle.__init__(self, node = None, direct_io = False)\<close> sets the two attributes
  \<open>node\<close> and \<open>direct_io\<close>. The model takes the node positionally and the keyword
  arguments as a list of name and value; a keyword that is not a parameter of the
  function is Python's \<open>TypeError\<close>.
\<close>

record FileHandle =
  node :: ref
  direct_io :: bool

definition FileHandle_init :: "ref \<Rightarrow> (string \<times> bool) list \<Rightarrow> error + FileHandle" where
  "FileHandle_init n kwargs =
     (case filter (\<lambda>kw. fst kw \<noteq> ''direct_io'') kwargs of
        kw # _ \<Rightarrow> Inl (TypeError (fst kw))
      | [] \<Rightarrow> Inr \<lparr> node = n,
                    direct_io = (case map_of kwargs ''direct_io'' of None \<Rightarrow> False | Some b \<Rightarrow> b) \<rparr>)"

section \<open>nodetypes.py: GeneratorFile\<close>

text \<open>
  A Python iterator: \<open>next\<close> either raises \<open>StopIteration\<close> (\<open>None\<close>) or returns a value and
  leaves the iterator advanced. The type includes the iterators that never stop.
\<close>

codatatype 'v iterator = Iterator (py_next: "('v \<times> 'v iterator) option")

primcorec iter_list :: "'v list \<Rightarrow> 'v iterator" where
  "iter_list xs = Iterator (case xs of [] \<Rightarrow> None | x # xs' \<Rightarrow> Some (x, iter_list xs'))"

text \<open>An iterable is what \<open>iter\<close> makes of it.\<close>

datatype 'v iterable = Iterable (iter: "'v iterator")

text \<open>
  \<open>GeneratorFile.__init__(generator, mode = 0o444, min_read_len = -1)\<close>, with
  \<open>BaseFile.__init__\<close> masking the mode.
\<close>

record 'v GeneratorFile =
  gf_mode :: int
  gf_generator :: "'v iterable"
  gf_min_read_len :: int

definition GeneratorFile_init :: "'v iterable \<Rightarrow> int option \<Rightarrow> int option \<Rightarrow> 'v GeneratorFile" where
  "GeneratorFile_init g m mrl =
     \<lparr> gf_mode = and (case m of None \<Rightarrow> 292 | Some v \<Rightarrow> v) 511,
       gf_generator = g,
       gf_min_read_len = (case mrl of None \<Rightarrow> - 1 | Some v \<Rightarrow> v) \<rparr>"

text \<open>
  The streaming cursor. \<open>current_blob = None\<close> is Python's \<open>None\<close>: the producer is
  exhausted.
\<close>

record 'v GeneratorFile_Handle = FileHandle +
  generator :: "'v iterator"
  current_blob :: "bytes option"
  current_blob_position :: int
  min_read_len :: int

text \<open>
  \<open>GeneratorFile.Handle.__init__\<close> first calls
  \<open>super().__init__(node, direct_io=True, nonseekable=True)\<close>, then sets the cursor.
\<close>

definition GeneratorFile_Handle_init ::
  "ref \<Rightarrow> 'v iterable \<Rightarrow> int \<Rightarrow> error + 'v GeneratorFile_Handle" where
  "GeneratorFile_Handle_init n g mrl =
     (case FileHandle_init n [(''direct_io'', True), (''nonseekable'', True)] of
        Inl e \<Rightarrow> Inl e
      | Inr fh \<Rightarrow> Inr \<lparr> node = node fh, direct_io = direct_io fh,
                       generator = iter g, current_blob = Some [],
                       current_blob_position = 0, min_read_len = mrl \<rparr>)"

text \<open>\<open>GeneratorFile.open(self, mode)\<close>; \<open>self\<close> is the reference of the node \<open>gf\<close>.\<close>

definition GeneratorFile_open ::
  "ref \<Rightarrow> 'v GeneratorFile \<Rightarrow> int \<Rightarrow> error + 'v GeneratorFile_Handle" where
  "GeneratorFile_open self gf mode =
     GeneratorFile_Handle_init self (gf_generator gf) (gf_min_read_len gf)"

text \<open>Python's slice \<open>xs[i:j]\<close>, negative indices counting from the end.\<close>

definition py_slice :: "'a list \<Rightarrow> int \<Rightarrow> int \<Rightarrow> 'a list" where
  "py_slice xs i j =
     (let n = int (length xs);
          i' = (if i < 0 then max (n + i) 0 else min i n);
          j' = (if j < 0 then max (n + j) 0 else min j n)
      in take (nat (j' - i')) (drop (nat i') xs))"

text \<open>
  The body of the \<open>while\<close> loop of \<open>GeneratorFile.Handle.read\<close>, up to the test of
  \<open>min_read_len\<close>, for a cursor whose current chunk is \<open>blob\<close>. The byte coercion
  \<open>types_conv.as_bytes\<close> is a parameter.
\<close>

definition read_body ::
  "('v \<Rightarrow> bytes) \<Rightarrow> int \<Rightarrow> bytes \<Rightarrow> bytes \<Rightarrow> 'v GeneratorFile_Handle
     \<Rightarrow> bytes \<times> 'v GeneratorFile_Handle" where
  "read_body as_bytes sz ret blob self =
     (let n = min (sz - int (length ret)) (int (length blob) - current_blob_position self)
      in if n > 0
         then (ret @ py_slice blob (current_blob_position self) (current_blob_position self + n),
               self\<lparr> current_blob_position := current_blob_position self + n \<rparr>)
         else (case py_next (generator self) of
                 Some (v, g') \<Rightarrow>
                   (ret, self\<lparr> generator := g', current_blob := Some (as_bytes v),
                               current_blob_position := 0 \<rparr>)
               | None \<Rightarrow>
                   (ret, self\<lparr> current_blob := None, current_blob_position := 0 \<rparr>)))"

text \<open>
  The loop itself. The producer may yield empty chunks for ever, so the loop need not
  end: \<open>None\<close> is "does not return".
\<close>

partial_function (option) read_loop ::
  "('v \<Rightarrow> bytes) \<Rightarrow> int \<Rightarrow> bytes \<Rightarrow> 'v GeneratorFile_Handle
     \<Rightarrow> (bytes \<times> 'v GeneratorFile_Handle) option" where
  "read_loop as_bytes sz ret self =
     (case current_blob self of
        None \<Rightarrow> Some (ret, self)
      | Some blob \<Rightarrow>
          if sz > int (length ret)
          then (let r = read_body as_bytes sz ret blob self
                in if min_read_len (snd r) > 0 \<and> int (length (fst r)) \<ge> min_read_len (snd r)
                   then Some r
                   else read_loop as_bytes sz (fst r) (snd r))
          else Some (ret, self))"

text \<open>\<open>GeneratorFile.Handle.read(self, size, offset)\<close>.\<close>

definition GeneratorFile_Handle_read ::
  "('v \<Rightarrow> bytes) \<Rightarrow> 'v GeneratorFile_Handle \<Rightarrow> int \<Rightarrow> int
     \<Rightarrow> (bytes \<times> 'v GeneratorFile_Handle) option" where
  "GeneratorFile_Handle_read as_bytes self sz offset = read_loop as_bytes sz [] self"

text \<open>Successive \<open>read\<close> calls on one session, each with its size and offset.\<close>

fun reads ::
  "('v \<Rightarrow> bytes) \<Rightarrow> 'v GeneratorFile_Handle \<Rightarrow> (int \<times> int) list
     \<Rightarrow> (bytes list \<times> 'v GeneratorFile_Handle) option" where
  "reads as_bytes self [] = Some ([], self)"
| "reads as_bytes self (req # rest) =
     (case GeneratorFile_Handle_read as_bytes self (fst req) (snd req) of
        None \<Rightarrow> None
      | Some (b, self') \<Rightarrow>
          (case reads as_bytes self' rest of
             None \<Rightarrow> None
           | Some (bs, self'') \<Rightarrow> Some (b # bs, self'')))"

section \<open>io.BytesIO\<close>

text \<open>
  The in-memory stream of the standard library: its content and its position. \<open>seek\<close> and
  \<open>truncate\<close> refuse a negative argument with \<open>ValueError\<close>; \<open>read\<close> with a negative size
  reads to the end; \<open>write\<close> of no bytes does nothing, and a write past the end first pads
  with zero bytes; \<open>truncate\<close> never extends.
\<close>

record BytesIO =
  buf :: bytes
  pos :: nat

definition BytesIO_init :: "bytes \<Rightarrow> BytesIO" where
  "BytesIO_init d = \<lparr> buf = d, pos = 0 \<rparr>"

definition BytesIO_getvalue :: "BytesIO \<Rightarrow> bytes" where
  "BytesIO_getvalue b = buf b"

definition BytesIO_seek :: "BytesIO \<Rightarrow> int \<Rightarrow> error + BytesIO" where
  "BytesIO_seek b offset =
     (if offset < 0 then Inl (ValueError ''negative seek value'')
      else Inr (b\<lparr> pos := nat offset \<rparr>))"

definition BytesIO_read :: "BytesIO \<Rightarrow> int \<Rightarrow> bytes \<times> BytesIO" where
  "BytesIO_read b sz =
     (let avail = length (buf b) - pos b;
          n = (if sz < 0 then avail else min (nat sz) avail)
      in (take n (drop (pos b) (buf b)), b\<lparr> pos := pos b + n \<rparr>))"

definition BytesIO_write :: "BytesIO \<Rightarrow> bytes \<Rightarrow> BytesIO" where
  "BytesIO_write b d =
     (if d = [] then b
      else let padded = buf b @ replicate (pos b - length (buf b)) (CHR 0x00)
           in b\<lparr> buf := take (pos b) padded @ d @ drop (pos b + length d) padded,
                 pos := pos b + length d \<rparr>)"

definition BytesIO_truncate :: "BytesIO \<Rightarrow> int \<Rightarrow> error + BytesIO" where
  "BytesIO_truncate b sz =
     (if sz < 0 then Inl (ValueError ''negative size value'')
      else Inr (b\<lparr> buf := take (nat sz) (buf b) \<rparr>))"

section \<open>Python dictionaries\<close>

text \<open>
  A \<open>dict\<close> keeps its keys in insertion order: an association list. Assigning to a key
  that is present replaces its value in place, to a new key appends; \<open>del\<close> of a missing
  key raises \<open>KeyError\<close>.
\<close>

type_synonym 'a dict = "(string \<times> 'a) list"

fun dict_get :: "'a dict \<Rightarrow> string \<Rightarrow> 'a option" where
  "dict_get [] k = None"
| "dict_get (kv # kvs) k = (if fst kv = k then Some (snd kv) else dict_get kvs k)"

fun setitem :: "'a dict \<Rightarrow> string \<Rightarrow> 'a \<Rightarrow> 'a dict" where
  "setitem [] k v = [(k, v)]"
| "setitem (kv # kvs) k v = (if fst kv = k then (fst kv, v) # kvs else kv # setitem kvs k v)"

fun delitem :: "'a dict \<Rightarrow> string \<Rightarrow> error + 'a dict" where
  "delitem [] k = Inl (KeyError k)"
| "delitem (kv # kvs) k =
     (if fst kv = k then Inr kvs
      else (case delitem kvs k of Inl e \<Rightarrow> Inl e | Inr kvs' \<Rightarrow> Inr (kv # kvs')))"

definition keys :: "'a dict \<Rightarrow> string list" where
  "keys d = map fst d"

section \<open>The heap of node and handle objects\<close>

text \<open>
  \<open>BlobFile.Handle\<close>: the shared buffer, its dirty flag (\<open>True\<close>, \<open>False\<close> or Python's
  \<open>None\<close>, which \<open>flush\<close> assigns) and the count of open sessions.
\<close>

record BlobFile_Handle = FileHandle +
  buffer :: BytesIO
  dirty :: "bool option"
  refs :: int

text \<open>
  The objects of the tree, each with the attributes its class sets. \<open>saved\<close> is not an
  attribute of the source: it records the argument of every call of \<open>BlobFile.save\<close> on
  the node, the latest last, so that the calls can be counted. \<open>OtherNode\<close> stands for a
  node of any other class.
\<close>

datatype obj =
    BlobFile (mode: int) (rw: bool) (data: bytes) (shared_handle: "ref option")
      (saved: "bytes list")
  | Symlink (mode: int) (link: string)
  | DictDir (mode: int) (rw: bool) (contents: "ref dict")
  | Handle BlobFile_Handle
  | OtherNode

type_synonym heap = "obj list"

definition deref :: "heap \<Rightarrow> ref \<Rightarrow> obj option" where
  "deref h r = (if r < length h then Some (h ! r) else None)"

definition alloc :: "heap \<Rightarrow> obj \<Rightarrow> ref \<times> heap" where
  "alloc h x = (length h, h @ [x])"

text \<open>
  A method is only ever called on an object of its class. Where the reference \<open>self\<close> of
  a modelled method does not point to such an object, the model answers
  \<open>TypeError ''self''\<close> and leaves the heap as it is.
\<close>

section \<open>nodetypes.py: Symlink and BlobFile\<close>

definition Symlink_init :: "string \<Rightarrow> int option \<Rightarrow> obj" where
  "Symlink_init l m = Symlink (and (case m of None \<Rightarrow> 292 | Some v \<Rightarrow> v) 511) l"

text \<open>\<open>BlobFile.__init__(data = b'', mode = None, rw = False)\<close>.\<close>

definition BlobFile_init :: "bytes \<Rightarrow> int option \<Rightarrow> bool \<Rightarrow> obj" where
  "BlobFile_init d m w =
     BlobFile (and (case m of Some v \<Rightarrow> v | None \<Rightarrow> if w then 438 else 292) 511) w d None []"

definition BlobFile_load :: "ref \<Rightarrow> heap \<Rightarrow> error + bytes" where
  "BlobFile_load self h =
     (case deref h self of
        Some (BlobFile m w d sh sv) \<Rightarrow> Inr d
      | _ \<Rightarrow> Inl (TypeError ''self''))"

definition BlobFile_save :: "ref \<Rightarrow> bytes \<Rightarrow> heap \<Rightarrow> (error + unit) \<times> heap" where
  "BlobFile_save self d' h =
     (case deref h self of
        Some (BlobFile m w d sh sv) \<Rightarrow> (Inr (), h[self := BlobFile m w d' sh (sv @ [d'])])
      | _ \<Rightarrow> (Inl (TypeError ''self''), h))"

definition BlobFile_Handle_init :: "ref \<Rightarrow> bytes \<Rightarrow> error + BlobFile_Handle" where
  "BlobFile_Handle_init n d =
     (case FileHandle_init n [] of
        Inl e \<Rightarrow> Inl e
      | Inr fh \<Rightarrow> Inr \<lparr> node = node fh, direct_io = direct_io fh,
                       buffer = BytesIO_init d, dirty = Some False, refs = 0 \<rparr>)"

text \<open>
  \<open>BlobFile.open\<close>: make the shared handle if there is none, count the session, return the
  shared handle.
\<close>

definition BlobFile_open :: "ref \<Rightarrow> int \<Rightarrow> heap \<Rightarrow> (error + ref) \<times> heap" where
  "BlobFile_open self omode h =
     (case deref h self of
        Some (BlobFile m w d sh sv) \<Rightarrow>
          (case (case sh of
                   Some r \<Rightarrow> Inr (r, h)
                 | None \<Rightarrow>
                     (case BlobFile_load self h of
                        Inl e \<Rightarrow> Inl e
                      | Inr loaded \<Rightarrow>
                          (case BlobFile_Handle_init self loaded of
                             Inl e \<Rightarrow> Inl e
                           | Inr hnd \<Rightarrow>
                               let a = alloc h (Handle hnd)
                               in Inr (fst a, (snd a)[self := BlobFile m w d (Some (fst a)) sv])))) of
             Inl e \<Rightarrow> (Inl e, h)
           | Inr (r, h1) \<Rightarrow>
               (case deref h1 r of
                  Some (Handle hnd) \<Rightarrow> (Inr r, h1[r := Handle (hnd\<lparr> refs := refs hnd + 1 \<rparr>)])
                | _ \<Rightarrow> (Inl (AttributeError ''refs''), h1)))
      | _ \<Rightarrow> (Inl (TypeError ''self''), h))"

text \<open>The methods of \<open>BlobFile.Handle\<close>; \<open>self\<close> is the reference of the handle.\<close>

definition Handle_read :: "ref \<Rightarrow> int \<Rightarrow> int \<Rightarrow> heap \<Rightarrow> (error + bytes) \<times> heap" where
  "Handle_read self sz offset h =
     (case deref h self of
        Some (Handle hnd) \<Rightarrow>
          (case BytesIO_seek (buffer hnd) offset of
             Inl e \<Rightarrow> (Inl e, h)
           | Inr b \<Rightarrow>
               let r = BytesIO_read b sz
               in (Inr (fst r), h[self := Handle (hnd\<lparr> buffer := snd r \<rparr>)]))
      | _ \<Rightarrow> (Inl (TypeError ''self''), h))"

definition Handle_write :: "ref \<Rightarrow> bytes \<Rightarrow> int \<Rightarrow> heap \<Rightarrow> (error + int) \<times> heap" where
  "Handle_write self wbuf offset h =
     (case deref h self of
        Some (Handle hnd) \<Rightarrow>
          (case deref h (node hnd) of
             Some (BlobFile m w d sh sv) \<Rightarrow>
               if \<not> w then (Inl (raise_FuseOSError ''ENOPERM''), h)
               else
                 let hnd1 = hnd\<lparr> dirty := Some True \<rparr>
                 in (case BytesIO_seek (buffer hnd1) offset of
                       Inl e \<Rightarrow> (Inl e, h[self := Handle hnd1])
                     | Inr b \<Rightarrow>
                         (Inr (int (length wbuf)),
                          h[self := Handle (hnd1\<lparr> buffer := BytesIO_write b wbuf \<rparr>)]))
           | _ \<Rightarrow> (Inl (AttributeError ''rw''), h))
      | _ \<Rightarrow> (Inl (TypeError ''self''), h))"

definition Handle_truncate :: "ref \<Rightarrow> int \<Rightarrow> heap \<Rightarrow> (error + unit) \<times> heap" where
  "Handle_truncate self sz h =
     (case deref h self of
        Some (Handle hnd) \<Rightarrow>
          (case deref h (node hnd) of
             Some (BlobFile m w d sh sv) \<Rightarrow>
               if \<not> w then (Inl (raise_FuseOSError ''ENOPERM''), h)
               else
                 let hnd1 = hnd\<lparr> dirty := Some True \<rparr>
                 in (case BytesIO_truncate (buffer hnd1) sz of
                       Inl e \<Rightarrow> (Inl e, h[self := Handle hnd1])
                     | Inr b \<Rightarrow> (Inr (), h[self := Handle (hnd1\<lparr> buffer := b \<rparr>)]))
           | _ \<Rightarrow> (Inl (AttributeError ''rw''), h))
      | _ \<Rightarrow> (Inl (TypeError ''self''), h))"

definition Handle_flush :: "ref \<Rightarrow> heap \<Rightarrow> (error + unit) \<times> heap" where
  "Handle_flush self h =
     (case deref h self of
        Some (Handle hnd) \<Rightarrow>
          if dirty hnd = Some True
          then (case BlobFile_save (node hnd) (BytesIO_getvalue (buffer hnd)) h of
                  (Inl e, h1) \<Rightarrow> (Inl e, h1)
                | (Inr u, h1) \<Rightarrow> (Inr (), h1[self := Handle (hnd\<lparr> dirty := None \<rparr>)]))
          else (Inr (), h)
      | _ \<Rightarrow> (Inl (TypeError ''self''), h))"

definition Handle_release :: "ref \<Rightarrow> heap \<Rightarrow> (error + unit) \<times> heap" where
  "Handle_release self h =
     (case deref h self of
        Some (Handle hnd) \<Rightarrow>
          let hnd1 = hnd\<lparr> refs := refs hnd - 1 \<rparr>;
              h1 = h[self := Handle hnd1]
          in if refs hnd1 = 0
             then (case Handle_flush self h1 of
                     (Inl e, h2) \<Rightarrow> (Inl e, h2)
                   | (Inr u, h2) \<Rightarrow>
                       (case deref h2 (node hnd1) of
                          Some (BlobFile m w d sh sv) \<Rightarrow>
                            (Inr (), h2[node hnd1 := BlobFile m w d None sv])
                        | _ \<Rightarrow> (Inl (AttributeError ''shared_handle''), h2)))
             else (Inr (), h1)
      | _ \<Rightarrow> (Inl (TypeError ''self''), h))"

text \<open>
  \<open>BlobFile.truncate\<close>: open, truncate through the handle, and release whatever the
  truncation did (\<open>try\<close> ... \<open>finally\<close>); \<open>os.O_RDWR\<close> is 2.
\<close>

definition BlobFile_truncate :: "ref \<Rightarrow> int \<Rightarrow> heap \<Rightarrow> (error + unit) \<times> heap" where
  "BlobFile_truncate self sz h =
     (case BlobFile_open self 2 h of
        (Inl e, h1) \<Rightarrow> (Inl e, h1)
      | (Inr r, h1) \<Rightarrow>
          (case Handle_truncate r sz h1 of
             (res, h2) \<Rightarrow>
               (case Handle_release r h2 of
                  (Inl e, h3) \<Rightarrow> (Inl e, h3)
                | (Inr u, h3) \<Rightarrow> (res, h3))))"

text \<open>
  Sessions: one call of \<open>open\<close> on a node for each of the given modes, the reads, writes
  and truncations of the open sessions on the handle (no call of \<open>flush\<close> by the
  caller), and \<open>n\<close> calls of \<open>release\<close>. A failing call raises to its caller and the next
  call is made all the same, as the transport does.
\<close>

fun opens :: "int list \<Rightarrow> ref \<Rightarrow> heap \<Rightarrow> (error + ref) list \<times> heap" where
  "opens [] self h = ([], h)"
| "opens (om # oms) self h =
     (let r = BlobFile_open self om h; rest = opens oms self (snd r)
      in (fst r # fst rest, snd rest))"

datatype session_op = Read int int | Write bytes int | Truncate int

fun run_op :: "ref \<Rightarrow> session_op \<Rightarrow> heap \<Rightarrow> heap" where
  "run_op r (Read sz offset) h = snd (Handle_read r sz offset h)"
| "run_op r (Write wbuf offset) h = snd (Handle_write r wbuf offset h)"
| "run_op r (Truncate sz) h = snd (Handle_truncate r sz h)"

fun session_ops :: "ref \<Rightarrow> session_op list \<Rightarrow> heap \<Rightarrow> heap" where
  "session_ops r [] h = h"
| "session_ops r (x # xs) h = session_ops r xs (run_op r x h)"

fun releases :: "nat \<Rightarrow> ref \<Rightarrow> heap \<Rightarrow> heap" where
  "releases 0 r h = h"
| "releases (Suc n) r h = releases n r (snd (Handle_release r h))"

fun mutates :: "session_op \<Rightarrow> bool" where
  "mutates (Read sz offset) = False"
| "mutates (Write wbuf offset) = True"
| "mutates (Truncate sz) = True"

section \<open>nodetypes.py: DictDir\<close>

text \<open>\<open>DictDir.__init__(contents, mode = None, rw = False)\<close>.\<close>

definition DictDir_init :: "ref dict \<Rightarrow> int option \<Rightarrow> bool \<Rightarrow> obj" where
  "DictDir_init c m w =
     DictDir (and (case m of Some v \<Rightarrow> v | None \<Rightarrow> if w then 438 else 292) 511) w c"

definition DictDir_lookup :: "ref \<Rightarrow> string \<Rightarrow> heap \<Rightarrow> error + ref option" where
  "DictDir_lookup self name h =
     (case deref h self of
        Some (DictDir m w c) \<Rightarrow> Inr (dict_get c name)
      | _ \<Rightarrow> Inl (TypeError ''self''))"

text \<open>
  \<open>DictDir.Handle\<close>. Its \<open>items\<close> is \<open>self.contents.keys()\<close>, a view of the dictionary and
  not a copy of its keys: the model keeps the reference of the directory whose dictionary
  is viewed, and \<open>readdir\<close> reads the keys from the heap it runs in. The model runs the
  generator of \<open>readdir\<close> to its end in one step. Every directory of the model has a
  dictionary of its own (no method assigns \<open>contents\<close> after \<open>__init__\<close>, and \<open>mkdir\<close>
  makes a new dictionary).
\<close>

record DictDir_Handle =
  dir_node :: ref
  items :: ref

definition DictDir_opendir :: "ref \<Rightarrow> heap \<Rightarrow> error + DictDir_Handle" where
  "DictDir_opendir self h =
     (case deref h self of
        Some (DictDir m w c) \<Rightarrow> Inr \<lparr> dir_node = self, items = self \<rparr>
      | _ \<Rightarrow> Inl (TypeError ''self''))"

definition DictDir_Handle_readdir :: "DictDir_Handle \<Rightarrow> heap \<Rightarrow> error + string list" where
  "DictDir_Handle_readdir hnd h =
     (case deref h (items hnd) of
        Some (DictDir m w c) \<Rightarrow> Inr (keys c)
      | _ \<Rightarrow> Inl (TypeError ''items''))"

definition DictDir_mknod :: "ref \<Rightarrow> string \<Rightarrow> int \<Rightarrow> int \<Rightarrow> heap \<Rightarrow> (error + ref) \<times> heap" where
  "DictDir_mknod self name fmode dev h =
     (case deref h self of
        Some (DictDir m w c) \<Rightarrow>
          if \<not> w then (Inl (raise_FuseOSError ''ENOPERM''), h)
          else if dev \<noteq> 0 then (Inl (raise_FuseOSError ''ENOSYS''), h)
          else
            let a = alloc h (BlobFile_init [] (Some fmode) True)
            in (Inr (fst a), (snd a)[self := DictDir m w (setitem c name (fst a))])
      | _ \<Rightarrow> (Inl (TypeError ''self''), h))"

definition DictDir_mkdir :: "ref \<Rightarrow> string \<Rightarrow> int \<Rightarrow> heap \<Rightarrow> (error + ref) \<times> heap" where
  "DictDir_mkdir self name fmode h =
     (case deref h self of
        Some (DictDir m w c) \<Rightarrow>
          if \<not> w then (Inl (raise_FuseOSError ''ENOPERM''), h)
          else
            let a = alloc h (DictDir_init [] (Some fmode) True)
            in (Inr (fst a), (snd a)[self := DictDir m w (setitem c name (fst a))])
      | _ \<Rightarrow> (Inl (TypeError ''self''), h))"

definition DictDir_unlink :: "ref \<Rightarrow> string \<Rightarrow> heap \<Rightarrow> (error + unit) \<times> heap" where
  "DictDir_unlink self name h =
     (case deref h self of
        Some (DictDir m w c) \<Rightarrow>
          if \<not> w then (Inl (raise_FuseOSError ''ENOPERM''), h)
          else (case delitem c name of
                  Inl e \<Rightarrow> (Inl e, h)
                | Inr c' \<Rightarrow> (Inr (), h[self := DictDir m w c']))
      | _ \<Rightarrow> (Inl (TypeError ''self''), h))"

definition DictDir_rmdir :: "ref \<Rightarrow> string \<Rightarrow> heap \<Rightarrow> (error + unit) \<times> heap" where
  "DictDir_rmdir self name h =
     (case deref h self of
        Some (DictDir m w c) \<Rightarrow>
          if \<not> w then (Inl (raise_FuseOSError ''ENOPERM''), h)
          else (case delitem c name of
                  Inl e \<Rightarrow> (Inl e, h)
                | Inr c' \<Rightarrow> (Inr (), h[self := DictDir m w c']))
      | _ \<Rightarrow> (Inl (TypeError ''self''), h))"

definition DictDir_symlink :: "ref \<Rightarrow> string \<Rightarrow> string \<Rightarrow> heap \<Rightarrow> (error + unit) \<times> heap" where
  "DictDir_symlink self name target h =
     (case deref h self of
        Some (DictDir m w c) \<Rightarrow>
          if \<not> w then (Inl (raise_FuseOSError ''ENOPERM''), h)
          else
            let a = alloc h (Symlink_init target None)
            in (Inr (), (snd a)[self := DictDir m w (setitem c name (fst a))])
      | _ \<Rightarrow> (Inl (TypeError ''self''), h))"

text \<open>
  \<open>DictDir.rename(self, old_name, new_parent, new_name)\<close>. After its two guards the body
  reads and writes the dictionaries under \<open>name\<close>, which is neither a parameter nor a local
  variable of the method: it is looked up among the globals of the module. The parameter
  \<open>global_name\<close> is that binding, \<open>None\<close> when the module has none, which is
  \<open>NameError\<close>. The \<open>or\<close> of the second guard tests \<open>self.rw\<close> first.
  \<open>new_parent.contents\<close> is read after the deletion, so the model is right also when
  \<open>new_parent\<close> is \<open>self\<close>.
\<close>

definition DictDir_rename ::
  "string option \<Rightarrow> ref \<Rightarrow> string \<Rightarrow> ref \<Rightarrow> string \<Rightarrow> heap \<Rightarrow> (error + unit) \<times> heap" where
  "DictDir_rename global_name self old_name new_parent new_name h =
     (case deref h self of
        Some (DictDir m w c) \<Rightarrow>
          (case deref h new_parent of
             Some (DictDir pm pw pc) \<Rightarrow>
               if \<not> w then (Inl (raise_FuseOSError ''ENOPERM''), h)
               else if \<not> pw then (Inl (raise_FuseOSError ''ENOPERM''), h)
               else
                 (case global_name of
                    None \<Rightarrow> (Inl (NameError ''name''), h)
                  | Some name \<Rightarrow>
                      (case dict_get c name of
                         None \<Rightarrow> (Inl (KeyError name), h)
                       | Some n \<Rightarrow>
                           (case delitem c name of
                              Inl e \<Rightarrow> (Inl e, h)
                            | Inr c' \<Rightarrow>
                                let h1 = h[self := DictDir m w c']
                                in (case deref h1 new_parent of
                                      Some (DictDir qm qw qc) \<Rightarrow>
                                        (Inr (), h1[new_parent := DictDir qm qw (setitem qc name n)])
                                    | _ \<Rightarrow> (Inl (AttributeError ''contents''), h1)))))
           | _ \<Rightarrow> (Inl (raise_FuseOSError ''ENOSYS''), h))
      | _ \<Rightarrow> (Inl (TypeError ''self''), h))"

text \<open>\<open>DictDir.link(self, name, node)\<close> has no guard.\<close>

definition DictDir_link :: "ref \<Rightarrow> string \<Rightarrow> ref \<Rightarrow> heap \<Rightarrow> (error + unit) \<times> heap" where
  "DictDir_link self name n h =
     (case deref h self of
        Some (DictDir m w c) \<Rightarrow> (Inr (), h[self := DictDir m w (setitem c name n)])
      | _ \<Rightarrow> (Inl (TypeError ''self''), h))"

section \<open>Observations used to state the properties\<close>

text \<open>\<open>isinstance(r, DictDir)\<close>.\<close>

definition isinstance_DictDir :: "heap \<Rightarrow> ref \<Rightarrow> bool" where
  "isinstance_DictDir h r = (case deref h r of Some (DictDir m w c) \<Rightarrow> True | _ \<Rightarrow> False)"

text \<open>
  \<open>c'\<close> is \<open>c\<close> with the entry of \<open>name\<close> replaced by \<open>n\<close>: the same size, the same names
  in the same order, \<open>name\<close> mapped to \<open>n\<close> and every other name to what it was.
\<close>

definition replaced :: "ref dict \<Rightarrow> string \<Rightarrow> ref \<Rightarrow> ref dict \<Rightarrow> bool" where
  "replaced c name n c' \<longleftrightarrow>
     length c' = length c \<and> keys c' = keys c \<and> dict_get c' name = Some n \<and>
     (\<forall>k. k \<noteq> name \<longrightarrow> dict_get c' k = dict_get c k)"

text \<open>
  The shared handle of a buffered file, when it has one, is a \<open>BlobFile.Handle\<close> whose
  \<open>node\<close> is the file: what \<open>BlobFile.open\<close> establishes.
\<close>

definition wf_BlobFile :: "heap \<Rightarrow> ref \<Rightarrow> bool" where
  "wf_BlobFile h f =
     (case deref h f of
        Some (BlobFile m w d sh sv) \<Rightarrow>
          (case sh of
             None \<Rightarrow> True
           | Some r \<Rightarrow> (case deref h r of Some (Handle hnd) \<Rightarrow> node hnd = f | _ \<Rightarrow> False))
      | _ \<Rightarrow> False)"

text \<open>The session count and the buffer content of a handle; the attributes of a file.\<close>

definition session_count :: "heap \<Rightarrow> ref \<Rightarrow> int option" where
  "session_count h r = (case deref h r of Some (Handle hnd) \<Rightarrow> Some (refs hnd) | _ \<Rightarrow> None)"

definition buffer_of :: "heap \<Rightarrow> ref \<Rightarrow> bytes option" where
  "buffer_of h r =
     (case deref h r of Some (Handle hnd) \<Rightarrow> Some (BytesIO_getvalue (buffer hnd)) | _ \<Rightarrow> None)"

definition shared_handle_of :: "heap \<Rightarrow> ref \<Rightarrow> ref option" where
  "shared_handle_of h f =
     (case deref h f of Some (BlobFile m w d sh sv) \<Rightarrow> sh | _ \<Rightarrow> None)"

definition saved_of :: "heap \<Rightarrow> ref \<Rightarrow> bytes list" where
  "saved_of h f = (case deref h f of Some (BlobFile m w d sh sv) \<Rightarrow> sv | _ \<Rightarrow> [])"

section \<open>Lemmas on the heap, the dictionaries and the errors\<close>

lemma deref_SomeD: "deref h r = Some x \<Longrightarrow> r < length h \<and> h ! r = x"
  by (auto simp: deref_def split: if_splits)

lemma deref_update:
  "deref (h[r := x]) r' = (if r' < length h \<and> r' = r then Some x else deref h r')"
  by (simp add: deref_def)

lemma deref_append: "deref (h @ [x]) r = (if r = length h then Some x else deref h r)"
  by (simp add: deref_def nth_append)

lemma setitem_length: "k \<in> set (keys c) \<Longrightarrow> length (setitem c k v) = length c"
  by (induction c) (auto simp: keys_def)

lemma setitem_keys: "k \<in> set (keys c) \<Longrightarrow> keys (setitem c k v) = keys c"
  by (induction c) (auto simp: keys_def)

lemma setitem_keys_new: "k \<notin> set (keys c) \<Longrightarrow> keys (setitem c k v) = keys c @ [k]"
  by (induction c) (auto simp: keys_def)

lemma dict_get_setitem_same: "dict_get (setitem c k v) k = Some v"
  by (induction c) auto

lemma dict_get_setitem_other: "k' \<noteq> k \<Longrightarrow> dict_get (setitem c k v) k' = dict_get c k'"
  by (induction c) auto

lemma replaced_setitem: "k \<in> set (keys c) \<Longrightarrow> replaced c k v (setitem c k v)"
  by (simp add: replaced_def setitem_length setitem_keys dict_get_setitem_same
      dict_get_setitem_other)

lemma delitem_missing: "k \<notin> set (keys c) \<Longrightarrow> delitem c k = Inl (KeyError k)"
  by (induction c) (auto simp: keys_def)

lemma raise_ENOPERM: "raise_FuseOSError ''ENOPERM'' = AttributeError ''ENOPERM''"
  by (simp add: raise_FuseOSError_def errno_getattr_def)

lemma raise_ENOSYS: "raise_FuseOSError ''ENOSYS'' = FuseOSError ENOSYS"
  by (simp add: raise_FuseOSError_def errno_getattr_def)

lemma FileHandle_init_plain: "FileHandle_init n [] = Inr \<lparr> node = n, direct_io = False \<rparr>"
  by (simp add: FileHandle_init_def)

section \<open>GeneratorFile\<close>

lemma read_exhausted:
  "current_blob self = None \<Longrightarrow> GeneratorFile_Handle_read as_bytes self sz offset = Some ([], self)"
  by (simp add: GeneratorFile_Handle_read_def read_loop.simps)

lemma reads_exhausted:
  "current_blob self = None \<Longrightarrow>
   reads as_bytes self (map (\<lambda>offset. (sz, offset)) offsets) = Some (replicate (length offsets) [], self)"
  by (induction offsets) (simp_all add: read_exhausted)

lemma read_first_call:
  assumes "as_bytes x = ''ab''" and "as_bytes y = ''cde''"
    and "current_blob self = Some []" and "current_blob_position self = 0"
    and "generator self = iter_list [x, y]" and "min_read_len self \<le> 0"
  shows "GeneratorFile_Handle_read as_bytes self 4 offset =
           Some (''abcd'', self\<lparr> generator := iter_list [], current_blob := Some ''cde'',
                                 current_blob_position := 2 \<rparr>)"
  using assms
  by (simp add: GeneratorFile_Handle_read_def read_loop.simps read_body_def py_slice_def)

lemma read_second_call:
  assumes "current_blob self = Some ''cde''" and "current_blob_position self = 2"
    and "generator self = iter_list []" and "min_read_len self \<le> 0"
  shows "GeneratorFile_Handle_read as_bytes self 4 offset =
           Some (''e'', self\<lparr> current_blob := None, current_blob_position := 0 \<rparr>)"
  using assms
  by (simp add: GeneratorFile_Handle_read_def read_loop.simps read_body_def py_slice_def)

text \<open>
  C6. A session whose cursor is as \<open>GeneratorFile.Handle.__init__\<close> sets it (current chunk
  empty, position 0), whose producer yields two chunks that \<open>as_bytes\<close> turns into
  \<open>b"ab"\<close> and \<open>b"cde"\<close>, and whose \<open>min_read_len\<close> sets no threshold (it is not
  positive; the default is -1): successive reads of 4 bytes, at any offsets, return
  \<open>b"abcd"\<close>, then \<open>b"e"\<close>, then the empty byte string on every further call, and the
  cursor ends exhausted (\<open>current_blob\<close> is \<open>None\<close>) and stays so.
\<close>

theorem generatorfile_read_chunks:
  assumes "as_bytes x = ''ab''" and "as_bytes y = ''cde''"
    and "current_blob self = Some []" and "current_blob_position self = 0"
    and "generator self = iter_list [x, y]" and "min_read_len self \<le> 0"
  shows "reads as_bytes self ((4, o1) # (4, o2) # map (\<lambda>offset. (4, offset)) offsets) =
           Some (''abcd'' # ''e'' # replicate (length offsets) [],
                 self\<lparr> generator := iter_list [], current_blob := None,
                       current_blob_position := 0 \<rparr>)"
proof -
  let ?s1 = "self\<lparr> generator := iter_list [], current_blob := Some ''cde'',
                   current_blob_position := 2 \<rparr>"
  let ?s2 = "self\<lparr> generator := iter_list [], current_blob := None,
                   current_blob_position := 0 \<rparr>"
  have 1: "GeneratorFile_Handle_read as_bytes self 4 o1 = Some (''abcd'', ?s1)"
    using assms by (rule read_first_call)
  have 2: "GeneratorFile_Handle_read as_bytes ?s1 4 o2 = Some (''e'', ?s2)"
    using assms(6) by (simp add: read_second_call)
  have 3: "reads as_bytes ?s2 (map (\<lambda>offset. (4, offset)) offsets) =
             Some (replicate (length offsets) [], ?s2)"
    by (simp add: reads_exhausted)
  show ?thesis by (simp add: 1 2 3)
qed

theorem generatorfile_read_chunks_witness:
  "reads (\<lambda>b. b)
     \<lparr> node = 0, direct_io = True, generator = iter_list [''ab'', ''cde''],
       current_blob = Some [], current_blob_position = 0, min_read_len = - 1 \<rparr>
     [(4, 0), (4, 4), (4, 5), (4, 5)] =
   Some ([''abcd'', ''e'', [], []],
     \<lparr> node = 0, direct_io = True, generator = iter_list [],
       current_blob = None, current_blob_position = 0, min_read_len = - 1 \<rparr>)"
  using generatorfile_read_chunks [where as_bytes = "\<lambda>b. b" and x = "''ab''" and y = "''cde''"
      and self = "\<lparr> node = 0, direct_io = True, generator = iter_list [''ab'', ''cde''],
        current_blob = Some [], current_blob_position = 0, min_read_len = - 1 \<rparr>"
      and ?o1.0 = 0 and ?o2.0 = 4 and offsets = "[5, 5]"]
  by simp

text \<open>
  C8. \<open>GeneratorFile.open\<close> never returns a handle: \<open>GeneratorFile.Handle.__init__\<close> passes
  the keyword \<open>nonseekable\<close> to \<open>FileHandle.__init__\<close>, which has the parameters \<open>node\<close>
  and \<open>direct_io\<close> only, and the call raises \<open>TypeError\<close>.
\<close>

theorem generatorfile_open_fails:
  "GeneratorFile_open self gf omode = Inl (TypeError ''nonseekable'')"
  by (simp add: GeneratorFile_open_def GeneratorFile_Handle_init_def FileHandle_init_def)

text \<open>
  C10. For every cursor state and every request size, \<open>read\<close> returns the same bytes and
  leaves the same cursor (or runs for ever all the same) whatever the offset.
\<close>

theorem generatorfile_read_ignores_offset:
  "GeneratorFile_Handle_read as_bytes self sz offset1 =
   GeneratorFile_Handle_read as_bytes self sz offset2"
  by (simp add: GeneratorFile_Handle_read_def)

section \<open>DictDir\<close>

text \<open>
  C3. \<open>rename\<close> does not move the entry of \<open>old_name\<close> to \<open>new_name\<close>. In the writable
  directory 0 with the entry \<open>a\<close>, renaming \<open>a\<close> to \<open>b\<close> in the writable, empty directory 1
  raises \<open>NameError\<close> and changes nothing when the module has no global \<open>name\<close>; and
  whatever \<open>name\<close> is bound to, directory 1 never ends with the entry under \<open>b\<close>.
\<close>

theorem dictdir_rename_ignores_names:
  "DictDir_rename None 0 ''a'' 1 ''b'' [DictDir 438 True [(''a'', 2)], DictDir 438 True [], OtherNode]
     = (Inl (NameError ''name''), [DictDir 438 True [(''a'', 2)], DictDir 438 True [], OtherNode])
   \<and> (\<forall>g. deref (snd (DictDir_rename g 0 ''a'' 1 ''b''
                 [DictDir 438 True [(''a'', 2)], DictDir 438 True [], OtherNode])) 1
            \<noteq> Some (DictDir 438 True [(''b'', 2)]))"
proof -
  have "deref (snd (DictDir_rename g 0 ''a'' 1 ''b''
                 [DictDir 438 True [(''a'', 2)], DictDir 438 True [], OtherNode])) 1
            \<noteq> Some (DictDir 438 True [(''b'', 2)])" for g
  proof (cases g)
    case None
    then show ?thesis by (simp add: DictDir_rename_def deref_def)
  next
    case (Some name)
    then show ?thesis by (cases "name = ''a''") (simp_all add: DictDir_rename_def deref_def)
  qed
  then show ?thesis by (simp add: DictDir_rename_def deref_def)
qed

text \<open>
  C4, as amended. On a directory whose read-write flag is unset, each of \<open>mknod\<close>,
  \<open>mkdir\<close>, \<open>symlink\<close>, \<open>unlink\<close>, \<open>rmdir\<close> and \<open>rename\<close> fails and leaves every object as it
  was; \<open>rename\<close> fails with NotSupported when \<open>new_parent\<close> is not a \<open>DictDir\<close>, since
  that guard comes first.
\<close>

theorem dictdir_readonly_rejects:
  assumes "deref h self = Some (DictDir m False c)"
  shows "isl (fst (DictDir_mknod self name fmode dev h))
       \<and> snd (DictDir_mknod self name fmode dev h) = h
       \<and> isl (fst (DictDir_mkdir self name fmode h))
       \<and> snd (DictDir_mkdir self name fmode h) = h
       \<and> isl (fst (DictDir_symlink self name target h))
       \<and> snd (DictDir_symlink self name target h) = h
       \<and> isl (fst (DictDir_unlink self name h))
       \<and> snd (DictDir_unlink self name h) = h
       \<and> isl (fst (DictDir_rmdir self name h))
       \<and> snd (DictDir_rmdir self name h) = h
       \<and> isl (fst (DictDir_rename g self old_name new_parent new_name h))
       \<and> snd (DictDir_rename g self old_name new_parent new_name h) = h
       \<and> (\<not> isinstance_DictDir h new_parent \<longrightarrow>
            fst (DictDir_rename g self old_name new_parent new_name h) = Inl NotSupported)"
  using assms
  by (auto simp: DictDir_mknod_def DictDir_mkdir_def DictDir_symlink_def DictDir_unlink_def
      DictDir_rmdir_def DictDir_rename_def isinstance_DictDir_def raise_ENOSYS
      split: option.splits obj.splits)

theorem dictdir_readonly_rejects_witness:
  "isl (fst (DictDir_mknod 0 ''x'' 420 0 [DictDir 292 False [(''a'', 1)], OtherNode]))
   \<and> snd (DictDir_mknod 0 ''x'' 420 0 [DictDir 292 False [(''a'', 1)], OtherNode])
       = [DictDir 292 False [(''a'', 1)], OtherNode]
   \<and> isl (fst (DictDir_unlink 0 ''a'' [DictDir 292 False [(''a'', 1)], OtherNode]))
   \<and> snd (DictDir_unlink 0 ''a'' [DictDir 292 False [(''a'', 1)], OtherNode])
       = [DictDir 292 False [(''a'', 1)], OtherNode]
   \<and> fst (DictDir_rename None 0 ''a'' 1 ''b'' [DictDir 292 False [(''a'', 1)], OtherNode])
       = Inl NotSupported"
proof -
  have h: "deref [DictDir 292 False [(''a'', 1)], OtherNode] 0 = Some (DictDir 292 False [(''a'', 1)])"
    by (simp add: deref_def)
  have p: "\<not> isinstance_DictDir [DictDir 292 False [(''a'', 1)], OtherNode] 1"
    by (simp add: isinstance_DictDir_def deref_def)
  show ?thesis
    using p dictdir_readonly_rejects [OF h, where name = "''x''" and fmode = 420 and dev = 0
        and g = None and old_name = "''a''" and new_parent = 1 and new_name = "''b''"]
      dictdir_readonly_rejects [OF h, where name = "''a''" and new_parent = 1]
    by simp
qed

text \<open>
  The claim C4 as stated fails on the read-only directory 0: \<open>rename\<close> towards a node
  that is no \<open>DictDir\<close> fails with NotSupported; \<open>mknod\<close> fails with the
  \<open>AttributeError\<close> of \<open>errno.ENOPERM\<close>, which is no error code; and \<open>link\<close>, which has no
  guard, succeeds and adds the entry.
\<close>

theorem dictdir_readonly_counterexample:
  "DictDir_rename None 0 ''a'' 1 ''b'' [DictDir 292 False [(''a'', 1)], OtherNode]
     = (Inl NotSupported, [DictDir 292 False [(''a'', 1)], OtherNode])
   \<and> NotSupported \<noteq> PermissionDenied
   \<and> DictDir_mknod 0 ''x'' 420 0 [DictDir 292 False [(''a'', 1)], OtherNode]
     = (Inl (AttributeError ''ENOPERM''), [DictDir 292 False [(''a'', 1)], OtherNode])
   \<and> AttributeError ''ENOPERM'' \<noteq> PermissionDenied
   \<and> DictDir_link 0 ''x'' 1 [DictDir 292 False [(''a'', 1)], OtherNode]
     = (Inr (), [DictDir 292 False [(''a'', 1), (''x'', 1)], OtherNode])"
  by (simp add: DictDir_rename_def DictDir_mknod_def DictDir_link_def deref_def
      raise_ENOSYS raise_ENOPERM)

text \<open>
  C5, as amended. \<open>opendir\<close> returns a handle bound to a view of the directory's keys, not
  to a copy of them: \<open>readdir\<close> yields the names that the mapping has when \<open>readdir\<close>
  runs, in insertion order. On the heap of the \<open>opendir\<close> these are the names of that
  time; after a new name is linked, the same handle yields the old names followed by
  the new one; and in any later heap an \<open>opendir\<close> gives an equal handle, whose
  \<open>readdir\<close> yields the names of the mapping of that heap.
\<close>

theorem dictdir_opendir_live_view:
  assumes "deref h self = Some (DictDir m w c)"
  shows "\<exists>hnd. DictDir_opendir self h = Inr hnd
           \<and> DictDir_Handle_readdir hnd h = Inr (keys c)
           \<and> (name \<notin> set (keys c) \<longrightarrow>
                DictDir_Handle_readdir hnd (snd (DictDir_link self name n h)) = Inr (keys c @ [name]))
           \<and> (\<forall>h' m' w' c'. deref h' self = Some (DictDir m' w' c') \<longrightarrow>
                DictDir_opendir self h' = Inr hnd
                \<and> DictDir_Handle_readdir hnd h' = Inr (keys c'))"
proof -
  from assms have "self < length h" by (simp add: deref_SomeD)
  then show ?thesis
    using assms
    by (simp add: DictDir_opendir_def DictDir_Handle_readdir_def DictDir_link_def
        deref_update setitem_keys_new)
qed

theorem dictdir_opendir_live_view_witness:
  "\<exists>hnd. DictDir_opendir 0 [DictDir 292 False [(''a'', 1), (''b'', 2)], OtherNode, OtherNode] = Inr hnd
     \<and> DictDir_Handle_readdir hnd [DictDir 292 False [(''a'', 1), (''b'', 2)], OtherNode, OtherNode]
         = Inr [''a'', ''b'']
     \<and> DictDir_Handle_readdir hnd
         (snd (DictDir_link 0 ''c'' 1 [DictDir 292 False [(''a'', 1), (''b'', 2)], OtherNode, OtherNode]))
         = Inr [''a'', ''b'', ''c'']"
proof -
  have h: "deref [DictDir 292 False [(''a'', 1), (''b'', 2)], OtherNode, OtherNode] 0
             = Some (DictDir 292 False [(''a'', 1), (''b'', 2)])"
    by (simp add: deref_def)
  show ?thesis
    using dictdir_opendir_live_view [OF h, where name = "''c''" and n = 1]
    by (auto simp: keys_def)
qed

text \<open>
  The claim C5 as stated fails: a handle opened on the directory with the one name \<open>a\<close>
  yields \<open>a\<close>, \<open>b\<close> once \<open>b\<close> is linked, not the names of the time of \<open>opendir\<close>.
\<close>

theorem dictdir_opendir_snapshot_counterexample:
  "DictDir_opendir 0 [DictDir 438 True [(''a'', 1)], OtherNode] = Inr \<lparr> dir_node = 0, items = 0 \<rparr>
   \<and> DictDir_Handle_readdir \<lparr> dir_node = 0, items = 0 \<rparr> [DictDir 438 True [(''a'', 1)], OtherNode]
       = Inr [''a'']
   \<and> DictDir_Handle_readdir \<lparr> dir_node = 0, items = 0 \<rparr>
       (snd (DictDir_link 0 ''b'' 1 [DictDir 438 True [(''a'', 1)], OtherNode]))
       = Inr [''a'', ''b'']"
  by (simp add: DictDir_opendir_def DictDir_Handle_readdir_def DictDir_link_def deref_def keys_def)

text \<open>
  C7, as amended. For a name that is not in the mapping, \<open>unlink\<close> and \<open>rmdir\<close> fail and
  leave every object as it was; on a writable directory the failure is the \<open>KeyError\<close>
  of the dictionary, not NotFound.
\<close>

theorem dictdir_remove_missing:
  assumes "deref h self = Some (DictDir m w c)" and "name \<notin> set (keys c)"
  shows "isl (fst (DictDir_unlink self name h)) \<and> snd (DictDir_unlink self name h) = h
       \<and> isl (fst (DictDir_rmdir self name h)) \<and> snd (DictDir_rmdir self name h) = h
       \<and> (w \<longrightarrow> DictDir_unlink self name h = (Inl (KeyError name), h)
              \<and> DictDir_rmdir self name h = (Inl (KeyError name), h))"
  using assms(1) delitem_missing [OF assms(2)]
  by (simp add: DictDir_unlink_def DictDir_rmdir_def)

theorem dictdir_remove_missing_witness:
  "DictDir_unlink 0 ''missing'' [DictDir 438 True [(''a'', 1)], OtherNode]
     = (Inl (KeyError ''missing''), [DictDir 438 True [(''a'', 1)], OtherNode])
   \<and> DictDir_rmdir 0 ''missing'' [DictDir 438 True [(''a'', 1)], OtherNode]
     = (Inl (KeyError ''missing''), [DictDir 438 True [(''a'', 1)], OtherNode])"
proof -
  have h: "deref [DictDir 438 True [(''a'', 1)], OtherNode] 0 = Some (DictDir 438 True [(''a'', 1)])"
    by (simp add: deref_def)
  have n: "''missing'' \<notin> set (keys [(''a'', 1::nat)])"
    by (simp add: keys_def)
  show ?thesis
    using dictdir_remove_missing [OF h n] by simp
qed

text \<open>
  The claim C7 as stated fails on the writable, empty directory 0: \<open>unlink\<close> of a missing
  name raises \<open>KeyError\<close>, which is not NotFound.
\<close>

theorem dictdir_remove_missing_counterexample:
  "DictDir_unlink 0 ''missing'' [DictDir 438 True []] = (Inl (KeyError ''missing''), [DictDir 438 True []])
   \<and> DictDir_rmdir 0 ''missing'' [DictDir 438 True []] = (Inl (KeyError ''missing''), [DictDir 438 True []])
   \<and> KeyError ''missing'' \<noteq> NotFound"
  by (simp add: DictDir_unlink_def DictDir_rmdir_def deref_def)

text \<open>
  C9, as amended. On a writable directory and a name that is in its mapping, \<open>mknod\<close>
  with device number 0, \<open>mkdir\<close>, \<open>symlink\<close> and \<open>link\<close> succeed and replace the entry of
  the name by the new node (the node passed in, for \<open>link\<close>): the mapping keeps its
  size, its names and their order, and every other entry.
\<close>

theorem dictdir_create_replaces:
  assumes "deref h self = Some (DictDir m True c)" and "name \<in> set (keys c)"
  shows "(\<exists>h' c'. DictDir_mknod self name fmode 0 h = (Inr (length h), h')
            \<and> deref h' self = Some (DictDir m True c') \<and> replaced c name (length h) c'
            \<and> deref h' (length h) = Some (BlobFile_init [] (Some fmode) True))
       \<and> (\<exists>h' c'. DictDir_mkdir self name fmode h = (Inr (length h), h')
            \<and> deref h' self = Some (DictDir m True c') \<and> replaced c name (length h) c'
            \<and> deref h' (length h) = Some (DictDir_init [] (Some fmode) True))
       \<and> (\<exists>h' c'. DictDir_symlink self name target h = (Inr (), h')
            \<and> deref h' self = Some (DictDir m True c') \<and> replaced c name (length h) c'
            \<and> deref h' (length h) = Some (Symlink_init target None))
       \<and> (\<exists>h' c'. DictDir_link self name n h = (Inr (), h')
            \<and> deref h' self = Some (DictDir m True c') \<and> replaced c name n c')"
proof -
  from assms(1) have lt: "self < length h" by (simp add: deref_SomeD)
  have rep: "\<And>v. replaced c name v (setitem c name v)"
    using assms(2) by (rule replaced_setitem)
  have upd: "\<And>x y. deref ((h @ [x])[self := y]) self = Some y"
    using lt by (simp add: deref_def)
  have new: "\<And>x y. deref ((h @ [x])[self := y]) (length h) = Some x"
    using lt by (simp add: deref_def nth_append)
  show ?thesis
    using assms(1) lt rep upd new
    by (simp add: DictDir_mknod_def DictDir_mkdir_def DictDir_symlink_def DictDir_link_def
        alloc_def deref_update)
qed

theorem dictdir_create_replaces_witness:
  "(\<exists>h' c'. DictDir_mknod 0 ''a'' 420 0 [DictDir 438 True [(''a'', 1), (''b'', 1)], OtherNode]
              = (Inr 2, h')
      \<and> deref h' 0 = Some (DictDir 438 True c') \<and> replaced [(''a'', 1), (''b'', 1)] ''a'' 2 c'
      \<and> deref h' 2 = Some (BlobFile_init [] (Some 420) True))
   \<and> (\<exists>h' c'. DictDir_link 0 ''a'' 1 [DictDir 438 True [(''a'', 1), (''b'', 1)], OtherNode]
              = (Inr (), h')
      \<and> deref h' 0 = Some (DictDir 438 True c') \<and> replaced [(''a'', 1), (''b'', 1)] ''a'' 1 c')
   \<and> DictDir_mknod 0 ''a'' 420 0 [DictDir 438 True [(''a'', 1), (''b'', 1)], OtherNode]
     = (Inr 2, [DictDir 438 True [(''a'', 2), (''b'', 1)], OtherNode, BlobFile 420 True [] None []])"
proof -
  have h: "deref [DictDir 438 True [(''a'', 1), (''b'', 1)], OtherNode] 0
             = Some (DictDir 438 True [(''a'', 1), (''b'', 1)])"
    by (simp add: deref_def)
  have n: "''a'' \<in> set (keys [(''a'', 1::nat), (''b'', 1)])"
    by (simp add: keys_def)
  have e: "DictDir_mknod 0 ''a'' 420 0 [DictDir 438 True [(''a'', 1), (''b'', 1)], OtherNode]
     = (Inr 2, [DictDir 438 True [(''a'', 2), (''b'', 1)], OtherNode, BlobFile 420 True [] None []])"
    by (simp add: DictDir_mknod_def deref_def alloc_def BlobFile_init_def)
  from dictdir_create_replaces [OF h n, where fmode = 420 and n = 1 and target = "''t''"]
  have "(\<exists>h' c'. DictDir_mknod 0 ''a'' 420 0 [DictDir 438 True [(''a'', 1), (''b'', 1)], OtherNode]
              = (Inr 2, h')
      \<and> deref h' 0 = Some (DictDir 438 True c') \<and> replaced [(''a'', 1), (''b'', 1)] ''a'' 2 c'
      \<and> deref h' 2 = Some (BlobFile_init [] (Some 420) True))
   \<and> (\<exists>h' c'. DictDir_link 0 ''a'' 1 [DictDir 438 True [(''a'', 1), (''b'', 1)], OtherNode]
              = (Inr (), h')
      \<and> deref h' 0 = Some (DictDir 438 True c') \<and> replaced [(''a'', 1), (''b'', 1)] ''a'' 1 c')"
    by (simp add: numeral_2_eq_2)
  with e show ?thesis by simp
qed

text \<open>
  The claim C9 as stated fails on the writable directory 0 with the entry \<open>a\<close>: \<open>mknod\<close>
  of \<open>a\<close> with device number 1 fails with NotSupported and replaces nothing.
\<close>

theorem dictdir_create_replaces_counterexample:
  "DictDir_mknod 0 ''a'' 420 1 [DictDir 438 True [(''a'', 1)], OtherNode]
     = (Inl NotSupported, [DictDir 438 True [(''a'', 1)], OtherNode])"
  by (simp add: DictDir_mknod_def deref_def raise_ENOSYS)

section \<open>BlobFile\<close>

lemma open_fresh:
  assumes "deref h f = Some (BlobFile m w d None sv)"
  shows "\<exists>h'. BlobFile_open f om h = (Inr (length h), h')
           \<and> deref h' f = Some (BlobFile m w d (Some (length h)) sv)
           \<and> deref h' (length h) = Some (Handle \<lparr> node = f, direct_io = False,
                 buffer = BytesIO_init d, dirty = Some False, refs = 1 \<rparr>)"
proof -
  from assms have lt: "f < length h" by (simp add: deref_SomeD)
  then show ?thesis
    using assms
    by (simp add: BlobFile_open_def BlobFile_load_def BlobFile_Handle_init_def
        FileHandle_init_plain alloc_def deref_update deref_append)
qed

lemma open_shared:
  assumes "deref h f = Some (BlobFile m w d (Some r) sv)" and "deref h r = Some (Handle hnd)"
  shows "\<exists>h'. BlobFile_open f om h = (Inr r, h')
           \<and> deref h' f = Some (BlobFile m w d (Some r) sv)
           \<and> deref h' r = Some (Handle (hnd\<lparr> refs := refs hnd + 1 \<rparr>))"
proof -
  from assms have "r < length h" and "r \<noteq> f" by (auto simp: deref_def split: if_splits)
  then show ?thesis
    using assms by (simp add: BlobFile_open_def deref_update)
qed

lemma opens_shared:
  assumes "deref h f = Some (BlobFile m w d (Some r) sv)" and "deref h r = Some (Handle hnd)"
  shows "\<exists>h'. opens oms f h = (replicate (length oms) (Inr r), h')
           \<and> deref h' f = Some (BlobFile m w d (Some r) sv)
           \<and> deref h' r = Some (Handle (hnd\<lparr> refs := refs hnd + int (length oms) \<rparr>))"
  using assms
proof (induction oms arbitrary: h hnd)
  case Nil
  then show ?case by simp
next
  case (Cons om oms)
  from open_shared[OF Cons.prems, of om] obtain h1 where
    o: "BlobFile_open f om h = (Inr r, h1)"
    and f1: "deref h1 f = Some (BlobFile m w d (Some r) sv)"
    and r1: "deref h1 r = Some (Handle (hnd\<lparr> refs := refs hnd + 1 \<rparr>))" by blast
  from Cons.IH[OF f1 r1] obtain h2 where
    "opens oms f h1 = (replicate (length oms) (Inr r), h2)"
    "deref h2 f = Some (BlobFile m w d (Some r) sv)"
    "deref h2 r = Some (Handle (hnd\<lparr> refs := refs hnd + 1 + int (length oms) \<rparr>))" by auto
  with o show ?case by (simp add: Let_def add.assoc add.commute)
qed

lemma opens_fresh:
  assumes "deref h f = Some (BlobFile m w d None sv)" and "oms \<noteq> []"
  shows "\<exists>h'. opens oms f h = (replicate (length oms) (Inr (length h)), h')
           \<and> deref h' f = Some (BlobFile m w d (Some (length h)) sv)
           \<and> deref h' (length h) = Some (Handle \<lparr> node = f, direct_io = False,
                 buffer = BytesIO_init d, dirty = Some False, refs = int (length oms) \<rparr>)"
proof -
  from assms(2) obtain om rest where n: "oms = om # rest" by (cases oms) auto
  from open_fresh[OF assms(1), of om] obtain h1 where
    o: "BlobFile_open f om h = (Inr (length h), h1)"
    and f1: "deref h1 f = Some (BlobFile m w d (Some (length h)) sv)"
    and r1: "deref h1 (length h) = Some (Handle \<lparr> node = f, direct_io = False,
                 buffer = BytesIO_init d, dirty = Some False, refs = 1 \<rparr>)" by blast
  from opens_shared[OF f1 r1, of rest] obtain h2 where
    "opens rest f h1 = (replicate (length rest) (Inr (length h)), h2)"
    "deref h2 f = Some (BlobFile m w d (Some (length h)) sv)"
    "deref h2 (length h) = Some (Handle \<lparr> node = f, direct_io = False,
                 buffer = BytesIO_init d, dirty = Some False, refs = 1 + int (length rest) \<rparr>)"
    by auto
  with o n show ?thesis by (simp add: Let_def add.commute)
qed

lemma run_op_state:
  assumes "deref h f = Some (BlobFile m w d (Some r) sv)" and "deref h r = Some (Handle hnd)"
    and "node hnd = f"
  shows "\<exists>hnd'. deref (run_op r x h) f = Some (BlobFile m w d (Some r) sv)
           \<and> deref (run_op r x h) r = Some (Handle hnd')
           \<and> node hnd' = f \<and> refs hnd' = refs hnd
           \<and> dirty hnd' = (if w \<and> mutates x then Some True else dirty hnd)"
proof -
  from assms have lt: "r < length h" and ne: "r \<noteq> f" by (auto simp: deref_def split: if_splits)
  show ?thesis
  proof (cases x)
    case (Read sz offset)
    then show ?thesis using assms lt ne
      by (cases "BytesIO_seek (buffer hnd) offset")
         (simp_all add: Handle_read_def deref_update Let_def)
  next
    case (Write wbuf offset)
    then show ?thesis using assms lt ne
      by (cases "BytesIO_seek (buffer hnd) offset")
         (simp_all add: Handle_write_def deref_update Let_def)
  next
    case (Truncate sz)
    then show ?thesis using assms lt ne
      by (cases "BytesIO_truncate (buffer hnd) sz")
         (simp_all add: Handle_truncate_def deref_update Let_def)
  qed
qed

lemma session_ops_state:
  assumes "deref h f = Some (BlobFile m w d (Some r) sv)" and "deref h r = Some (Handle hnd)"
    and "node hnd = f"
  shows "\<exists>hnd'. deref (session_ops r xs h) f = Some (BlobFile m w d (Some r) sv)
           \<and> deref (session_ops r xs h) r = Some (Handle hnd')
           \<and> node hnd' = f \<and> refs hnd' = refs hnd
           \<and> dirty hnd' = (if w \<and> (\<exists>x \<in> set xs. mutates x) then Some True else dirty hnd)"
  using assms
proof (induction xs arbitrary: h hnd)
  case Nil
  then show ?case by simp
next
  case (Cons x xs)
  from run_op_state[OF Cons.prems, of x] obtain hnd1 where
    f1: "deref (run_op r x h) f = Some (BlobFile m w d (Some r) sv)"
    and r1: "deref (run_op r x h) r = Some (Handle hnd1)"
    and n1: "node hnd1 = f" and c1: "refs hnd1 = refs hnd"
    and d1: "dirty hnd1 = (if w \<and> mutates x then Some True else dirty hnd)" by blast
  from Cons.IH[OF f1 r1 n1] obtain hnd2 where
    "deref (session_ops r xs (run_op r x h)) f = Some (BlobFile m w d (Some r) sv)"
    "deref (session_ops r xs (run_op r x h)) r = Some (Handle hnd2)"
    "node hnd2 = f" "refs hnd2 = refs hnd1"
    "dirty hnd2 = (if w \<and> (\<exists>x \<in> set xs. mutates x) then Some True else dirty hnd1)"
    by blast
  with c1 d1 show ?case by auto
qed

lemma release_not_last:
  assumes "deref h f = Some (BlobFile m w d (Some r) sv)" and "deref h r = Some (Handle hnd)"
    and "refs hnd \<noteq> 1"
  shows "deref (snd (Handle_release r h)) f = Some (BlobFile m w d (Some r) sv)
       \<and> deref (snd (Handle_release r h)) r = Some (Handle (hnd\<lparr> refs := refs hnd - 1 \<rparr>))"
proof -
  from assms have lt: "r < length h" and ne: "r \<noteq> f" by (auto simp: deref_def split: if_splits)
  then show ?thesis using assms by (simp add: Handle_release_def Let_def deref_update)
qed

lemma release_last:
  assumes "deref h f = Some (BlobFile m w d (Some r) sv)" and "deref h r = Some (Handle hnd)"
    and "node hnd = f" and "refs hnd = 1"
  shows "deref (snd (Handle_release r h)) f =
           Some (if dirty hnd = Some True
                 then BlobFile m w (BytesIO_getvalue (buffer hnd)) None
                        (sv @ [BytesIO_getvalue (buffer hnd)])
                 else BlobFile m w d None sv)
       \<and> deref (snd (Handle_release r h)) r =
           Some (Handle (hnd\<lparr> refs := 0,
                   dirty := (if dirty hnd = Some True then None else dirty hnd) \<rparr>))"
proof -
  from assms have lt: "r < length h" and ne: "r \<noteq> f" and ltf: "f < length h"
    by (auto simp: deref_def split: if_splits)
  then show ?thesis using assms
    by (simp add: Handle_release_def Handle_flush_def BlobFile_save_def Let_def deref_update)
qed

lemma releases_snoc: "releases (Suc j) r h = snd (Handle_release r (releases j r h))"
  by (induction j arbitrary: h) simp_all

lemma releases_not_last:
  assumes "deref h f = Some (BlobFile m w d (Some r) sv)" and "deref h r = Some (Handle hnd)"
    and "int k < refs hnd"
  shows "deref (releases k r h) f = Some (BlobFile m w d (Some r) sv)
       \<and> deref (releases k r h) r = Some (Handle (hnd\<lparr> refs := refs hnd - int k \<rparr>))"
  using assms
proof (induction k arbitrary: h hnd)
  case 0
  then show ?case by simp
next
  case (Suc k)
  from Suc.prems(3) have "refs hnd \<noteq> 1" by simp
  from release_not_last[OF Suc.prems(1,2) this]
  have f1: "deref (snd (Handle_release r h)) f = Some (BlobFile m w d (Some r) sv)"
    and r1: "deref (snd (Handle_release r h)) r = Some (Handle (hnd\<lparr> refs := refs hnd - 1 \<rparr>))"
    by simp_all
  have "int k < refs (hnd\<lparr> refs := refs hnd - 1 \<rparr>)" using Suc.prems(3) by simp
  from Suc.IH[OF f1 r1 this] show ?case by (simp add: algebra_simps)
qed

lemma write_then_read:
  assumes "deref h f = Some (BlobFile m True d (Some r) sv)" and "deref h r = Some (Handle hnd)"
    and "node hnd = f"
  shows "\<exists>h3 h4. Handle_write r D 0 h = (Inr (int (length D)), h3)
         \<and> Handle_read r (int (length D)) 0 h3 = (Inr D, h4)"
proof -
  from assms have lt: "r < length h" and ne: "r \<noteq> f" by (auto simp: deref_def split: if_splits)
  then show ?thesis using assms
    by (cases "D = []")
       (simp_all add: Handle_write_def Handle_read_def BytesIO_seek_def BytesIO_write_def
          BytesIO_read_def deref_update Let_def)
qed

text \<open>
  C1. On a buffered file with no open session, \<open>N \<ge> 1\<close> calls of \<open>open\<close> (one for each
  mode of \<open>oms\<close>) all return the same, new handle; after any reads, writes and
  truncations through it and \<open>k \<le> N\<close> calls of \<open>release\<close>, the session count is \<open>N - k\<close>
  (zero after the \<open>N\<close>-th), the file has its shared handle exactly while the count is
  positive, and \<open>save\<close> has been called at most once: only by the last release, only if
  the file is writable and a write or a truncation was made, and then with the content
  the buffer had at that moment.
\<close>

theorem blobfile_open_release_sessions:
  assumes "deref h f = Some (BlobFile m w d None sv)" and "oms \<noteq> []" and "k \<le> length oms"
  shows "fst (opens oms f h) = replicate (length oms) (Inr (length h))
       \<and> session_count
           (releases k (length h) (session_ops (length h) xs (snd (opens oms f h)))) (length h)
           = Some (int (length oms) - int k)
       \<and> shared_handle_of
           (releases k (length h) (session_ops (length h) xs (snd (opens oms f h)))) f
           = (if k < length oms then Some (length h) else None)
       \<and> (\<exists>b. buffer_of (session_ops (length h) xs (snd (opens oms f h))) (length h) = Some b
            \<and> saved_of
                (releases k (length h) (session_ops (length h) xs (snd (opens oms f h)))) f
                = sv @ (if k = length oms \<and> w \<and> (\<exists>x \<in> set xs. mutates x) then [b] else []))"
proof -
  let ?r = "length h" and ?N = "length oms"
  from opens_fresh[OF assms(1,2)] obtain h1 where
    o: "opens oms f h = (replicate ?N (Inr ?r), h1)"
    and f1: "deref h1 f = Some (BlobFile m w d (Some ?r) sv)"
    and r1: "deref h1 ?r = Some (Handle \<lparr> node = f, direct_io = False,
                 buffer = BytesIO_init d, dirty = Some False, refs = int ?N \<rparr>)" by blast
  from session_ops_state[OF f1 r1, of xs] obtain hnd where
    f2: "deref (session_ops ?r xs h1) f = Some (BlobFile m w d (Some ?r) sv)"
    and r2: "deref (session_ops ?r xs h1) ?r = Some (Handle hnd)"
    and n2: "node hnd = f" and c2: "refs hnd = int ?N"
    and d2: "dirty hnd = (if w \<and> (\<exists>x \<in> set xs. mutates x) then Some True else Some False)"
    by auto
  let ?h2 = "session_ops ?r xs h1"
  show ?thesis
  proof (cases "k < ?N")
    case True
    then have "int k < refs hnd" using c2 by simp
    from releases_not_last[OF f2 r2 this] True o c2 r2 show ?thesis
      by (simp add: session_count_def shared_handle_of_def saved_of_def buffer_of_def)
  next
    case False
    with assms(2,3) have kN: "k = ?N" and pos: "0 < ?N" by simp_all
    from pos obtain j where jN: "?N = Suc j" by (auto simp: gr0_conv_Suc)
    with kN have kj: "k = Suc j" by simp
    have "int j < refs hnd" using c2 jN by simp
    from releases_not_last[OF f2 r2 this]
    have f3: "deref (releases j ?r ?h2) f = Some (BlobFile m w d (Some ?r) sv)"
      and r3: "deref (releases j ?r ?h2) ?r = Some (Handle (hnd\<lparr> refs := refs hnd - int j \<rparr>))"
      by simp_all
    have "refs (hnd\<lparr> refs := refs hnd - int j \<rparr>) = 1" using c2 jN by simp
    from release_last[OF f3 r3 _ this] n2
    have l: "deref (snd (Handle_release ?r (releases j ?r ?h2))) f =
           Some (if dirty hnd = Some True
                 then BlobFile m w (BytesIO_getvalue (buffer hnd)) None
                        (sv @ [BytesIO_getvalue (buffer hnd)])
                 else BlobFile m w d None sv)"
      and l2: "deref (snd (Handle_release ?r (releases j ?r ?h2))) ?r =
           Some (Handle (hnd\<lparr> refs := 0,
                   dirty := (if dirty hnd = Some True then None else dirty hnd) \<rparr>))"
      by simp_all
    have rel: "releases (Suc j) ?r ?h2 = snd (Handle_release ?r (releases j ?r ?h2))"
      by (rule releases_snoc)
    show ?thesis using l l2 o r2 d2 kj jN rel
      by (simp add: session_count_def shared_handle_of_def saved_of_def buffer_of_def)
  qed
qed

theorem blobfile_open_release_sessions_witness:
  "fst (opens [0, 2] 0 [BlobFile 438 True ''abc'' None []]) = [Inr 1, Inr 1]
   \<and> session_count
       (releases 2 1 (session_ops 1 [Write ''xy'' 1] (snd (opens [0, 2] 0 [BlobFile 438 True ''abc'' None []])))) 1
       = Some 0
   \<and> shared_handle_of
       (releases 2 1 (session_ops 1 [Write ''xy'' 1] (snd (opens [0, 2] 0 [BlobFile 438 True ''abc'' None []])))) 0
       = None
   \<and> shared_handle_of
       (releases 1 1 (session_ops 1 [Write ''xy'' 1] (snd (opens [0, 2] 0 [BlobFile 438 True ''abc'' None []])))) 0
       = Some 1
   \<and> saved_of
       (releases 1 1 (session_ops 1 [Write ''xy'' 1] (snd (opens [0, 2] 0 [BlobFile 438 True ''abc'' None []])))) 0
       = []
   \<and> saved_of
       (releases 2 1 (session_ops 1 [Write ''xy'' 1] (snd (opens [0, 2] 0 [BlobFile 438 True ''abc'' None []])))) 0
       = [''axy'']"
proof -
  have h: "deref [BlobFile 438 True ''abc'' None []] 0 = Some (BlobFile 438 True ''abc'' None [])"
    by (simp add: deref_def)
  have b: "buffer_of (session_ops 1 [Write ''xy'' 1] (snd (opens [0, 2] 0 [BlobFile 438 True ''abc'' None []]))) 1
             = Some ''axy''"
    by (simp add: BlobFile_open_def BlobFile_load_def BlobFile_Handle_init_def
        FileHandle_init_plain alloc_def deref_def Handle_write_def BytesIO_seek_def
        BytesIO_write_def BytesIO_init_def BytesIO_getvalue_def buffer_of_def Let_def)
  show ?thesis
    using b
      blobfile_open_release_sessions [OF h, where oms = "[0, 2]" and k = 2 and xs = "[Write ''xy'' 1]"]
      blobfile_open_release_sessions [OF h, where oms = "[0, 2]" and k = 1 and xs = "[Write ''xy'' 1]"]
    by simp
qed

text \<open>
  C2. On a writable buffered file, two calls of \<open>open\<close> with no release between them
  return one and the same handle, and after a write of the bytes \<open>D\<close> at offset 0 through
  it, a read of \<open>len(D)\<close> bytes at offset 0 through it returns \<open>D\<close>.
\<close>

theorem blobfile_shared_buffer_coherence:
  assumes "wf_BlobFile h f" and "deref h f = Some (BlobFile m True d sh sv)"
  shows "\<exists>A h1 h2 h3 h4.
           BlobFile_open f oa h = (Inr A, h1) \<and> BlobFile_open f ob h1 = (Inr A, h2)
         \<and> Handle_write A D 0 h2 = (Inr (int (length D)), h3)
         \<and> Handle_read A (int (length D)) 0 h3 = (Inr D, h4)"
proof -
  have "\<exists>A h1 hnd. BlobFile_open f oa h = (Inr A, h1)
          \<and> deref h1 f = Some (BlobFile m True d (Some A) sv)
          \<and> deref h1 A = Some (Handle hnd) \<and> node hnd = f"
  proof (cases sh)
    case None
    with open_fresh[of h f m True d sv oa] assms(2) show ?thesis by auto
  next
    case (Some r)
    with assms obtain hnd where r: "deref h r = Some (Handle hnd)" and n: "node hnd = f"
      by (auto simp: wf_BlobFile_def split: option.splits obj.splits)
    from open_shared[of h f m True d r sv hnd oa] assms(2) Some r n show ?thesis by auto
  qed
  then obtain A h1 hnd where o1: "BlobFile_open f oa h = (Inr A, h1)"
    and f1: "deref h1 f = Some (BlobFile m True d (Some A) sv)"
    and r1: "deref h1 A = Some (Handle hnd)" and n1: "node hnd = f" by blast
  from open_shared[OF f1 r1, of ob] obtain h2 where o2: "BlobFile_open f ob h1 = (Inr A, h2)"
    and f2: "deref h2 f = Some (BlobFile m True d (Some A) sv)"
    and r2: "deref h2 A = Some (Handle (hnd\<lparr> refs := refs hnd + 1 \<rparr>))" by blast
  have n2: "node (hnd\<lparr> refs := refs hnd + 1 \<rparr>) = f" using n1 by simp
  from write_then_read[OF f2 r2 n2, of D] o1 o2 show ?thesis by blast
qed

theorem blobfile_shared_buffer_coherence_witness:
  "\<exists>A h1 h2 h3 h4.
     BlobFile_open 0 0 [BlobFile 438 True ''abc'' None []] = (Inr A, h1)
   \<and> BlobFile_open 0 2 h1 = (Inr A, h2)
   \<and> Handle_write A ''xy'' 0 h2 = (Inr 2, h3)
   \<and> Handle_read A 2 0 h3 = (Inr ''xy'', h4)"
proof -
  have h: "deref [BlobFile 438 True ''abc'' None []] 0 = Some (BlobFile 438 True ''abc'' None [])"
    by (simp add: deref_def)
  have wf: "wf_BlobFile [BlobFile 438 True ''abc'' None []] 0"
    by (simp add: wf_BlobFile_def deref_def)
  show ?thesis
    using blobfile_shared_buffer_coherence [OF wf h, where oa = 0 and ob = 2 and D = "''xy''"]
    by simp
qed

end
